theory Spec2Isabelle
  imports Complex_Main
begin

section \<open>Python values and exceptions\<close>

text \<open>
  The program \<^verbatim>\<open>dashboard.py\<close> keeps a tree of plain objects (Studiengang, Semester,
  Modul, Pruefungsleistung), computes two metrics over it and stores it as JSON.
  Python does not enforce the annotations of the constructors, and \<^verbatim>\<open>from_dict\<close>
  stores whatever value it finds under a key. A field therefore holds a Python value
  \<open>pyval\<close>; the annotations appear as explicit typing predicates further down.

  Conventions of the embedding:
  \<^item> \<open>pyval\<close> is the universe of values that \<^verbatim>\<open>json.load\<close> can return. A \<^verbatim>\<open>float\<close> is an
    ideal real number (no rounding, no NaN, no infinities); an \<^verbatim>\<open>int\<close> is unbounded.
  \<^item> A \<^verbatim>\<open>str\<close> is a \<open>string\<close>. Upper and lower case are those of the ASCII letters;
    every other character is left alone by \<open>str_lower\<close>.
  \<^item> A \<^verbatim>\<open>dict\<close> is an association list in insertion order; a lookup takes the first
    binding of a key (a Python dict has one binding per key).
  \<^item> An exception is a value \<open>Inl e\<close> of a sum type; \<open>Inr v\<close> is a normal return.
  \<^item> A method that mutates \<^verbatim>\<open>self\<close> returns the updated object.
\<close>

datatype pyval =
    PNone
  | PBool bool
  | PInt int
  | PFloat real
  | PStr string
  | PList "pyval list"
  | PDict "(string \<times> pyval) list"

datatype error =
    KeyError string
  | TypeError
  | AttributeError
  | ValueError
  | ZeroDivisionError
  | OSError
  | JSONDecodeError

text \<open>Sequencing: the second computation runs only if the first did not raise.\<close>

definition and_then :: "error + 'a \<Rightarrow> ('a \<Rightarrow> error + 'b) \<Rightarrow> error + 'b" where
  "and_then r f = (case r of Inl e \<Rightarrow> Inl e | Inr x \<Rightarrow> f x)"

text \<open>
  \<^verbatim>\<open>data[k]\<close> with a string key: a dict returns the value or raises KeyError; a list or a
  string raises TypeError (indices must be integers); None, a bool and a number raise
  TypeError (not subscriptable).
\<close>

fun getitem :: "pyval \<Rightarrow> string \<Rightarrow> error + pyval" where
  "getitem (PDict kvs) k = (case map_of kvs k of Some v \<Rightarrow> Inr v | None \<Rightarrow> Inl (KeyError k))"
| "getitem _ k = Inl TypeError"

text \<open>\<^verbatim>\<open>data.get(k, d)\<close>: only a dict has the method \<^verbatim>\<open>get\<close>.\<close>

fun dict_get :: "pyval \<Rightarrow> string \<Rightarrow> pyval \<Rightarrow> error + pyval" where
  "dict_get (PDict kvs) k d = Inr (case map_of kvs k of Some v \<Rightarrow> v | None \<Rightarrow> d)"
| "dict_get _ k d = Inl AttributeError"

text \<open>
  \<^verbatim>\<open>for x in v\<close>: a list yields its elements, a string its characters (strings of
  length one), a dict its keys; every other value is not iterable.
\<close>

fun py_iter :: "pyval \<Rightarrow> error + pyval list" where
  "py_iter (PList xs) = Inr xs"
| "py_iter (PStr s) = Inr (map (\<lambda>c. PStr [c]) s)"
| "py_iter (PDict kvs) = Inr (map (\<lambda>kv. PStr (fst kv)) kvs)"
| "py_iter _ = Inl TypeError"

text \<open>
  The list comprehension \<^verbatim>\<open>[f(x) for x in xs]\<close>: elements are processed in order and the
  first exception ends the loop.
\<close>

fun comprehension :: "('a \<Rightarrow> error + 'b) \<Rightarrow> 'a list \<Rightarrow> error + 'b list" where
  "comprehension f [] = Inr []"
| "comprehension f (x # xs) =
     (case f x of
        Inl e \<Rightarrow> Inl e
      | Inr y \<Rightarrow> (case comprehension f xs of Inl e \<Rightarrow> Inl e | Inr ys \<Rightarrow> Inr (y # ys)))"

subsection \<open>Numbers and strings\<close>

text \<open>
  Every sum of the program starts at the int \<^verbatim>\<open>0\<close>, so the left operand of each of its
  \<^verbatim>\<open>+\<close> and \<^verbatim>\<open>/\<close> is a number. \<open>as_number\<close> reads the other operand: a bool counts as
  an int (\<^verbatim>\<open>True\<close> is 1), and a value that is not a number raises TypeError. An int plus
  an int is an int, every other sum is a float. True division gives a float and raises
  ZeroDivisionError for a zero divisor. \<^verbatim>\<open>v > 0\<close> raises TypeError unless \<open>v\<close> is a number.
\<close>

datatype number = NInt int | NFloat real

fun num_val :: "number \<Rightarrow> real" where
  "num_val (NInt i) = of_int i"
| "num_val (NFloat r) = r"

fun num_add :: "number \<Rightarrow> number \<Rightarrow> number" where
  "num_add (NInt a) (NInt b) = NInt (a + b)"
| "num_add a b = NFloat (num_val a + num_val b)"

fun as_number :: "pyval \<Rightarrow> error + number" where
  "as_number (PBool b) = Inr (NInt (if b then 1 else 0))"
| "as_number (PInt i) = Inr (NInt i)"
| "as_number (PFloat r) = Inr (NFloat r)"
| "as_number _ = Inl TypeError"

definition py_add :: "number \<Rightarrow> pyval \<Rightarrow> error + number" where
  "py_add a v = and_then (as_number v) (\<lambda>b. Inr (num_add a b))"

definition py_truediv :: "number \<Rightarrow> pyval \<Rightarrow> error + number" where
  "py_truediv a v =
     and_then (as_number v) (\<lambda>b.
       if num_val b = 0 then Inl ZeroDivisionError else Inr (NFloat (num_val a / num_val b)))"



text \<open>
  \<^verbatim>\<open>v.lower()\<close>: a string maps each of \<^verbatim>\<open>A\<close>..\<^verbatim>\<open>Z\<close> to its lower-case letter; a value that is
  not a string has no such method.
\<close>

definition ascii_uppercase :: string where
  "ascii_uppercase = ''ABCDEFGHIJKLMNOPQRSTUVWXYZ''"

definition ascii_lowercase :: string where
  "ascii_lowercase = ''abcdefghijklmnopqrstuvwxyz''"

definition char_lower :: "char \<Rightarrow> char" where
  "char_lower c = (case map_of (zip ascii_uppercase ascii_lowercase) c of Some l \<Rightarrow> l | None \<Rightarrow> c)"

fun str_lower :: "pyval \<Rightarrow> error + string" where
  "str_lower (PStr s) = Inr (map char_lower s)"
| "str_lower _ = Inl AttributeError"

text \<open>
  A \<^verbatim>\<open>for\<close> loop that updates a local variable: the body maps the variable's value and
  the current element to the new value, and the first exception ends the loop.
\<close>

fun for_loop :: "('s \<Rightarrow> 'a \<Rightarrow> error + 's) \<Rightarrow> 's \<Rightarrow> 'a list \<Rightarrow> error + 's" where
  "for_loop body s [] = Inr s"
| "for_loop body s (x # xs) =
     (case body s x of Inl e \<Rightarrow> Inl e | Inr s' \<Rightarrow> for_loop body s' xs)"

definition py_sum :: "pyval list \<Rightarrow> error + number" where
  "py_sum xs = for_loop py_add (NInt 0) xs"

section \<open>Entity classes\<close>

record pruefungsleistung =
  "note" :: pyval
  versuch :: pyval

record modul =
  modulName :: pyval
  ects :: pyval
  status :: pyval
  "note" :: pyval
  pruefungen :: "pruefungsleistung list"

text \<open>
  The list \<^verbatim>\<open>Semester.module\<close> holds references to Modul objects, and Modul defines no
  \<^verbatim>\<open>__eq__\<close>, so \<^verbatim>\<open>==\<close> on its elements is object identity. The element type is a
  parameter: \<open>modul semester\<close> is the tree of values that is serialised, and an instance
  with object identities as elements is what \<^verbatim>\<open>removeModul\<close> compares.
\<close>

record 'm semester =
  semesterNummer :: pyval
  startDatum :: pyval
  endDatum :: pyval
  module :: "'m list"

record studiengang =
  name :: pyval
  gesamtECTS :: pyval
  semester :: "modul semester list"

subsection \<open>Constructors\<close>

text \<open>
  Each \<^verbatim>\<open>__init__\<close> stores its arguments and starts with an empty child list. A parameter
  with the default None (\<^verbatim>\<open>note\<close>, \<^verbatim>\<open>startDatum\<close>, \<^verbatim>\<open>endDatum\<close>) is passed explicitly here.
\<close>

definition Pruefungsleistung :: "pyval \<Rightarrow> pyval \<Rightarrow> pruefungsleistung" where
  "Pruefungsleistung n v = \<lparr>pruefungsleistung.note = n, versuch = v\<rparr>"

definition Modul :: "pyval \<Rightarrow> pyval \<Rightarrow> pyval \<Rightarrow> pyval \<Rightarrow> modul" where
  "Modul mn e s n = \<lparr>modulName = mn, ects = e, status = s, note = n, pruefungen = []\<rparr>"

definition Semester :: "pyval \<Rightarrow> pyval \<Rightarrow> pyval \<Rightarrow> 'm semester" where
  "Semester nr sd ed = \<lparr>semesterNummer = nr, startDatum = sd, endDatum = ed, module = []\<rparr>"

definition Studiengang :: "pyval \<Rightarrow> pyval \<Rightarrow> studiengang" where
  "Studiengang n g = \<lparr>name = n, gesamtECTS = g, semester = []\<rparr>"

subsection \<open>Pruefungsleistung\<close>

definition Pruefungsleistung_to_dict :: "pruefungsleistung \<Rightarrow> pyval" where
  "Pruefungsleistung_to_dict p =
     PDict [(''note'', pruefungsleistung.note p), (''versuch'', versuch p)]"

definition Pruefungsleistung_from_dict :: "pyval \<Rightarrow> error + pruefungsleistung" where
  "Pruefungsleistung_from_dict data =
     and_then (getitem data ''note'') (\<lambda>n.
     and_then (getitem data ''versuch'') (\<lambda>v.
     Inr (Pruefungsleistung n v)))"

subsection \<open>Modul\<close>

definition addPruefungsleistung :: "modul \<Rightarrow> pruefungsleistung \<Rightarrow> modul" where
  "addPruefungsleistung self p =
     self\<lparr>pruefungen := pruefungen self @ [p], note := pruefungsleistung.note p\<rparr>"

definition getAktuelleNote :: "modul \<Rightarrow> pyval" where
  "getAktuelleNote self = note self"

definition Modul_to_dict :: "modul \<Rightarrow> pyval" where
  "Modul_to_dict self =
     PDict [(''modulName'', modulName self),
            (''ects'', ects self),
            (''status'', status self),
            (''note'', note self),
            (''pruefungen'', PList (map Pruefungsleistung_to_dict (pruefungen self)))]"

definition Modul_from_dict :: "pyval \<Rightarrow> error + modul" where
  "Modul_from_dict data =
     and_then (getitem data ''modulName'') (\<lambda>mn.
     and_then (getitem data ''ects'') (\<lambda>e.
     and_then (getitem data ''status'') (\<lambda>s.
     and_then (dict_get data ''note'' PNone) (\<lambda>n.
     and_then (dict_get data ''pruefungen'' (PList [])) (\<lambda>ps.
     and_then (py_iter ps) (\<lambda>items.
     and_then (comprehension Pruefungsleistung_from_dict items) (\<lambda>pl.
     Inr ((Modul mn e s n)\<lparr>pruefungen := pl\<rparr>))))))))"

subsection \<open>Semester\<close>

definition addModul :: "'m semester \<Rightarrow> 'm \<Rightarrow> 'm semester" where
  "addModul self m = self\<lparr>module := module self @ [m]\<rparr>"

text \<open>
  \<^verbatim>\<open>list.remove(m)\<close> deletes the first element equal to \<open>m\<close> and raises ValueError when
  there is none.
\<close>

definition removeModul :: "'m semester \<Rightarrow> 'm \<Rightarrow> error + 'm semester" where
  "removeModul self m =
     (if m \<in> set (module self) then Inr (self\<lparr>module := remove1 m (module self)\<rparr>)
      else Inl ValueError)"

definition Semester_to_dict :: "modul semester \<Rightarrow> pyval" where
  "Semester_to_dict self =
     PDict [(''semesterNummer'', semesterNummer self),
            (''startDatum'', startDatum self),
            (''endDatum'', endDatum self),
            (''module'', PList (map Modul_to_dict (module self)))]"

definition Semester_from_dict :: "pyval \<Rightarrow> error + modul semester" where
  "Semester_from_dict data =
     and_then (getitem data ''semesterNummer'') (\<lambda>nr.
     and_then (dict_get data ''startDatum'' PNone) (\<lambda>sd.
     and_then (dict_get data ''endDatum'' PNone) (\<lambda>ed.
     and_then (dict_get data ''module'' (PList [])) (\<lambda>ms.
     and_then (py_iter ms) (\<lambda>items.
     and_then (comprehension Modul_from_dict items) (\<lambda>ml.
     Inr ((Semester nr sd ed)\<lparr>module := ml\<rparr>)))))))"

subsection \<open>Studiengang\<close>

definition addSemester :: "studiengang \<Rightarrow> modul semester \<Rightarrow> studiengang" where
  "addSemester self s = self\<lparr>semester := semester self @ [s]\<rparr>"

definition Studiengang_to_dict :: "studiengang \<Rightarrow> pyval" where
  "Studiengang_to_dict self =
     PDict [(''name'', name self),
            (''gesamtECTS'', gesamtECTS self),
            (''semester'', PList (map Semester_to_dict (semester self)))]"

definition Studiengang_from_dict :: "pyval \<Rightarrow> error + studiengang" where
  "Studiengang_from_dict data =
     and_then (getitem data ''name'') (\<lambda>n.
     and_then (getitem data ''gesamtECTS'') (\<lambda>g.
     and_then (dict_get data ''semester'' (PList [])) (\<lambda>ss.
     and_then (py_iter ss) (\<lambda>items.
     and_then (comprehension Semester_from_dict items) (\<lambda>sl.
     Inr ((Studiengang n g)\<lparr>semester := sl\<rparr>))))))"

text \<open>
  \<^verbatim>\<open>getNotendurchschnitt\<close>: the two nested loops append every \<^verbatim>\<open>note\<close> that is not None to
  the list \<^verbatim>\<open>noten\<close>; the result is \<^verbatim>\<open>sum(noten) / len(noten)\<close> if the list is not empty and
  the float \<^verbatim>\<open>0.0\<close> otherwise.
\<close>

definition collect_noten :: "studiengang \<Rightarrow> pyval list" where
  "collect_noten self =
     fold (\<lambda>sem noten.
        fold (\<lambda>m noten. if note m \<noteq> PNone then noten @ [note m] else noten)
          (module sem) noten)
       (semester self) []"

definition getNotendurchschnitt :: "studiengang \<Rightarrow> error + number" where
  "getNotendurchschnitt self =
     (let noten = collect_noten self in
      if noten \<noteq> [] then
        and_then (py_sum noten) (\<lambda>s. py_truediv s (PInt (int (length noten))))
      else Inr (NFloat 0))"

text \<open>
  \<^verbatim>\<open>getFortschrittECTS\<close>: \<^verbatim>\<open>earned\<close> starts at 0; a module whose \<^verbatim>\<open>status.lower()\<close> equals
  \<^verbatim>\<open>"abgeschlossen"\<close> adds its \<^verbatim>\<open>ects\<close>.
\<close>

definition getFortschrittECTS :: "studiengang \<Rightarrow> error + number" where
  "getFortschrittECTS self =
     for_loop (\<lambda>earned sem.
        for_loop (\<lambda>earned m.
           and_then (str_lower (status m)) (\<lambda>s.
             if s = ''abgeschlossen'' then py_add earned (ects m) else Inr earned))
          earned (module sem))
       (NInt 0) (semester self)"

section \<open>DashboardService\<close>

definition berechneNotenschnitt :: "studiengang \<Rightarrow> error + number" where
  "berechneNotenschnitt stg = getNotendurchschnitt stg"

definition berechneFortschritt :: "studiengang \<Rightarrow> error + number" where
  "berechneFortschritt stg = getFortschrittECTS stg"


section \<open>PersistenceService\<close>

text \<open>
  The outside world of \<^verbatim>\<open>saveData\<close> and \<^verbatim>\<open>loadData\<close>: for each file name, what
  \<^verbatim>\<open>open(datei, "r")\<close> and \<^verbatim>\<open>json.load\<close> make of it. \<open>files w d = None\<close> means that the
  file cannot be opened for reading, \<open>Unparsable\<close> that its text is not JSON, and
  \<open>Parsed j\<close> that \<^verbatim>\<open>json.load\<close> returns \<open>j\<close>. \<open>writable w d\<close> says whether
  \<^verbatim>\<open>open(datei, "w")\<close> succeeds. \<^verbatim>\<open>json.dump\<close> followed by \<^verbatim>\<open>json.load\<close> is taken to give
  back the value that was dumped, and a file that was written can be read. The console
  messages are not modelled.
\<close>

datatype contents = Parsed pyval | Unparsable

record world =
  files :: "string \<Rightarrow> contents option"
  writable :: "string \<Rightarrow> bool"



definition open_read :: "world \<Rightarrow> string \<Rightarrow> error + contents" where
  "open_read w datei = (case files w datei of None \<Rightarrow> Inl OSError | Some f \<Rightarrow> Inr f)"

definition json_load :: "contents \<Rightarrow> error + pyval" where
  "json_load f = (case f of Parsed j \<Rightarrow> Inr j | Unparsable \<Rightarrow> Inl JSONDecodeError)"



definition loadData_try :: "world \<Rightarrow> string \<Rightarrow> error + studiengang" where
  "loadData_try w datei =
     and_then (open_read w datei) (\<lambda>f.
     and_then (json_load f) (\<lambda>data.
     Studiengang_from_dict data))"

definition loadData :: "world \<Rightarrow> string \<Rightarrow> error + studiengang option" where
  "loadData w datei =
     (case loadData_try w datei of Inr stg \<Rightarrow> Inr (Some stg) | Inl e \<Rightarrow> Inr None)"

section \<open>The example of \<^verbatim>\<open>main\<close>\<close>

text \<open>The Studiengang that \<^verbatim>\<open>main()\<close> builds, statement by statement.\<close>

definition main_stg :: studiengang where
  "main_stg =
     (let stg = Studiengang (PStr ''Angewandte KI'') (PInt 180);
          sem1 = Semester (PInt 1) (PStr ''2023-10-01'') (PStr ''2024-03-31'');
          mathe = Modul (PStr ''Mathe I'') (PInt 8) (PStr ''Abgeschlossen'') (PFloat 2.3);
          mathe = addPruefungsleistung mathe (Pruefungsleistung (PFloat 2.3) (PInt 1));
          programmierung = Modul (PStr ''Programmierung'') (PInt 10) (PStr ''In Bearbeitung'') PNone;
          sem1 = addModul sem1 mathe;
          sem1 = addModul sem1 programmierung;
          stg = addSemester stg sem1;
          sem2 = Semester (PInt 2) (PStr ''2024-04-01'') (PStr ''2024-09-30'');
          datenbanken = Modul (PStr ''Datenbanken'') (PInt 6) (PStr ''Abgeschlossen'') (PFloat 2.0);
          datenbanken = addPruefungsleistung datenbanken (Pruefungsleistung (PFloat 2.0) (PInt 1));
          sem2 = addModul sem2 datenbanken;
          stg = addSemester stg sem2
      in stg)"



text \<open>
  A world for the examples: every name but the empty one can be opened for writing
  (\<^verbatim>\<open>open("", "w")\<close> raises FileNotFoundError), one file holds text that is not JSON, and
  three hold JSON documents with a part missing.
\<close>

definition example_world :: world where
  "example_world =
     \<lparr>files = [''kaputt.json'' \<mapsto> Unparsable,
               ''ohne_ects.json'' \<mapsto> Parsed (PDict [(''name'', PStr ''Angewandte KI'')]),
               ''ohne_versuch.json'' \<mapsto> Parsed (PDict
                  [(''name'', PStr ''Angewandte KI''), (''gesamtECTS'', PInt 180),
                   (''semester'', PList [PDict
                      [(''semesterNummer'', PInt 1),
                       (''module'', PList [PDict
                          [(''modulName'', PStr ''Mathe I''), (''ects'', PInt 8),
                           (''status'', PStr ''Abgeschlossen''),
                           (''pruefungen'', PList [PDict [(''note'', PFloat 2.3)]])]])]])]),
               ''nur_kopf.json'' \<mapsto> Parsed (PDict
                  [(''name'', PStr ''Angewandte KI''), (''gesamtECTS'', PInt 180)])],
      writable = (\<lambda>datei. datei \<noteq> [])\<rparr>"


definition three_modules :: "nat semester" where
  "three_modules =
     (let sem = Semester (PInt 1) PNone PNone;
          sem = addModul sem 10;
          sem = addModul sem 11;
          sem = addModul sem 12
      in sem)"

definition spec_named_document :: pyval where
  "spec_named_document =
     PDict [(''name'', PStr ''Angewandte KI''), (''totalCreditTarget'', PInt 180),
            (''semesters'', PList [])]"

section \<open>Notions used in the statements\<close>


text \<open>
  The annotations of the constructors as predicates: \<^verbatim>\<open>str\<close>, \<^verbatim>\<open>int\<close>, \<^verbatim>\<open>float\<close> (an int is
  accepted where a float is annotated) and the parameters that default to None. A
  Studiengang is well typed if every field of the tree has its annotated type. The
  projections \<open>the_int\<close> and \<open>the_float\<close> read a field of such a tree.
\<close>

fun is_int :: "pyval \<Rightarrow> bool" where
  "is_int (PInt i) = True"
| "is_int _ = False"

fun is_str :: "pyval \<Rightarrow> bool" where
  "is_str (PStr s) = True"
| "is_str _ = False"

fun is_float :: "pyval \<Rightarrow> bool" where
  "is_float (PFloat r) = True"
| "is_float (PInt i) = True"
| "is_float _ = False"

definition is_optional :: "(pyval \<Rightarrow> bool) \<Rightarrow> pyval \<Rightarrow> bool" where
  "is_optional P v = (v = PNone \<or> P v)"

definition wt_pruefungsleistung :: "pruefungsleistung \<Rightarrow> bool" where
  "wt_pruefungsleistung p = (is_float (pruefungsleistung.note p) \<and> is_int (versuch p))"

definition wt_modul :: "modul \<Rightarrow> bool" where
  "wt_modul m =
     (is_str (modulName m) \<and> is_int (ects m) \<and> is_str (status m) \<and>
      is_optional is_float (note m) \<and> list_all wt_pruefungsleistung (pruefungen m))"

definition wt_semester :: "modul semester \<Rightarrow> bool" where
  "wt_semester s =
     (is_int (semesterNummer s) \<and> is_optional is_str (startDatum s) \<and>
      is_optional is_str (endDatum s) \<and> list_all wt_modul (module s))"

definition wt_studiengang :: "studiengang \<Rightarrow> bool" where
  "wt_studiengang stg =
     (is_str (name stg) \<and> is_int (gesamtECTS stg) \<and> list_all wt_semester (semester stg))"














definition items :: "pyval \<Rightarrow> string \<Rightarrow> pyval list" where
  "items data k =
     (case data of
        PDict kvs \<Rightarrow> (case map_of kvs k of Some (PList xs) \<Rightarrow> xs | _ \<Rightarrow> [])
      | _ \<Rightarrow> [])"





text \<open>The value that \<^verbatim>\<open>data.get(k, d)\<close> returns for the result of the lookup.\<close>

definition value_or :: "pyval option \<Rightarrow> pyval \<Rightarrow> pyval" where
  "value_or found d = (case found of Some v \<Rightarrow> v | None \<Rightarrow> d)"

text \<open>
  The keys of a dict (\<^verbatim>\<open>list(d.keys())\<close>), all keys that occur anywhere in a JSON value, the
  keys that the \<^verbatim>\<open>to_dict\<close> methods write, and the field names of the persisted format as
  the specification lists them.
\<close>

definition dict_keys :: "pyval \<Rightarrow> string list" where
  "dict_keys d = (case d of PDict kvs \<Rightarrow> map fst kvs | _ \<Rightarrow> [])"

fun all_keys :: "pyval \<Rightarrow> string list" where
  "all_keys (PDict kvs) = concat (map (\<lambda>kv. fst kv # all_keys (snd kv)) kvs)"
| "all_keys (PList xs) = concat (map all_keys xs)"
| "all_keys _ = []"

definition spec_field_names :: "string list" where
  "spec_field_names =
     [''name'', ''totalCreditTarget'', ''semesters'', ''semesterNumber'', ''startDate'',
      ''endDate'', ''modules'', ''creditPoints'', ''status'', ''finalGrade'', ''attempts'',
      ''grade'', ''attemptNumber'']"

definition code_field_names :: "string list" where
  "code_field_names =
     [''name'', ''gesamtECTS'', ''semester'', ''semesterNummer'', ''startDatum'',
      ''endDatum'', ''module'', ''modulName'', ''ects'', ''status'', ''note'', ''pruefungen'',
      ''versuch'']"

section \<open>Basic facts\<close>

lemma and_then_Inr [simp]: "and_then (Inr x) f = f x"
  by (simp add: and_then_def)

lemma and_then_Inl [simp]: "and_then (Inl e) f = Inl e"
  by (simp add: and_then_def)

lemma comprehension_inverse:
  assumes "\<And>x. g (f x) = Inr x"
  shows "comprehension g (map f xs) = Inr xs"
  by (induction xs) (simp_all add: assms)

lemma Pruefungsleistung_round_trip:
  "Pruefungsleistung_from_dict (Pruefungsleistung_to_dict p) = Inr p"
  by (simp add: Pruefungsleistung_from_dict_def Pruefungsleistung_to_dict_def
      Pruefungsleistung_def)

lemma Modul_round_trip: "Modul_from_dict (Modul_to_dict m) = Inr m"
  by (simp add: Modul_from_dict_def Modul_to_dict_def Modul_def
      comprehension_inverse Pruefungsleistung_round_trip)

lemma Semester_round_trip: "Semester_from_dict (Semester_to_dict s) = Inr s"
  by (simp add: Semester_from_dict_def Semester_to_dict_def Semester_def
      comprehension_inverse Modul_round_trip)

lemma Studiengang_round_trip: "Studiengang_from_dict (Studiengang_to_dict stg) = Inr stg"
  by (simp add: Studiengang_from_dict_def Studiengang_to_dict_def Studiengang_def
      comprehension_inverse Semester_round_trip)







subsection \<open>Credit points\<close>












lemmas example_defs =
  main_stg_def Studiengang_def Semester_def Modul_def Pruefungsleistung_def
  addPruefungsleistung_def addModul_def addSemester_def

lemma main_stg_wt: "wt_studiengang main_stg"
  by (simp add: example_defs wt_studiengang_def wt_semester_def wt_modul_def
      wt_pruefungsleistung_def is_optional_def)




subsection \<open>Grade average and progress\<close>














subsection \<open>Lists\<close>

lemma remove1_split:
  "m \<in> set zs \<Longrightarrow> \<exists>xs ys. zs = xs @ m # ys \<and> m \<notin> set xs \<and> remove1 m zs = xs @ ys"
proof (induction zs)
  case Nil
  then show ?case by simp
next
  case (Cons z zs)
  show ?case
  proof (cases "z = m")
    case True
    then have "z # zs = [] @ m # zs \<and> m \<notin> set [] \<and> remove1 m (z # zs) = [] @ zs"
      by simp
    then show ?thesis by blast
  next
    case False
    with Cons obtain xs ys where "zs = xs @ m # ys" "m \<notin> set xs" "remove1 m zs = xs @ ys"
      by auto
    with False have "z # zs = (z # xs) @ m # ys \<and> m \<notin> set (z # xs) \<and>
        remove1 m (z # zs) = (z # xs) @ ys"
      by auto
    then show ?thesis by blast
  qed
qed

lemma remove1_distinct:
  "distinct zs \<Longrightarrow> remove1 m zs = filter (\<lambda>x. x \<noteq> m) zs"
proof (induction zs)
  case Nil
  then show ?case by simp
next
  case (Cons z zs)
  show ?case
  proof (cases "z = m")
    case True
    with Cons.prems have "m \<notin> set zs" by simp
    then have "filter (\<lambda>x. x \<noteq> m) zs = zs" by (auto simp: filter_id_conv)
    with True show ?thesis by simp
  next
    case False
    with Cons show ?thesis by simp
  qed
qed

subsection \<open>Failing reconstruction\<close>














subsection \<open>Reconstruction from a dict\<close>

lemma Modul_from_dict_PDict:
  "Modul_from_dict (PDict kvs) =
     and_then (getitem (PDict kvs) ''modulName'') (\<lambda>mn.
     and_then (getitem (PDict kvs) ''ects'') (\<lambda>e.
     and_then (getitem (PDict kvs) ''status'') (\<lambda>s.
     and_then (py_iter (value_or (map_of kvs ''pruefungen'') (PList []))) (\<lambda>items.
     and_then (comprehension Pruefungsleistung_from_dict items) (\<lambda>pl.
     Inr \<lparr>modulName = mn, ects = e, status = s,
          note = value_or (map_of kvs ''note'') PNone, pruefungen = pl\<rparr>)))))"
  by (simp add: Modul_from_dict_def Modul_def value_or_def)

lemma Semester_from_dict_PDict:
  "Semester_from_dict (PDict kvs) =
     and_then (getitem (PDict kvs) ''semesterNummer'') (\<lambda>nr.
     and_then (py_iter (value_or (map_of kvs ''module'') (PList []))) (\<lambda>items.
     and_then (comprehension Modul_from_dict items) (\<lambda>ml.
     Inr \<lparr>semesterNummer = nr, startDatum = value_or (map_of kvs ''startDatum'') PNone,
          endDatum = value_or (map_of kvs ''endDatum'') PNone, module = ml\<rparr>)))"
  by (simp add: Semester_from_dict_def Semester_def value_or_def)

lemma Studiengang_from_dict_PDict:
  "Studiengang_from_dict (PDict kvs) =
     and_then (getitem (PDict kvs) ''name'') (\<lambda>n.
     and_then (getitem (PDict kvs) ''gesamtECTS'') (\<lambda>g.
     and_then (py_iter (value_or (map_of kvs ''semester'') (PList []))) (\<lambda>items.
     and_then (comprehension Semester_from_dict items) (\<lambda>sl.
     Inr \<lparr>name = n, gesamtECTS = g, semester = sl\<rparr>))))"
  by (simp add: Studiengang_from_dict_def Studiengang_def value_or_def)





subsection \<open>Keys\<close>

lemma scalar_keys:
  "is_str v \<Longrightarrow> all_keys v = []"
  "is_int v \<Longrightarrow> all_keys v = []"
  "is_float v \<Longrightarrow> all_keys v = []"
  "is_optional is_str v \<Longrightarrow> all_keys v = []"
  "is_optional is_float v \<Longrightarrow> all_keys v = []"
  by (cases v; simp add: is_optional_def)+

lemma keys_Pruefungsleistung:
  "wt_pruefungsleistung p \<Longrightarrow>
     set (all_keys (Pruefungsleistung_to_dict p)) \<subseteq> set code_field_names"
  by (simp add: wt_pruefungsleistung_def Pruefungsleistung_to_dict_def scalar_keys
      code_field_names_def)

lemma keys_Modul:
  assumes "wt_modul m"
  shows "set (all_keys (Modul_to_dict m)) \<subseteq> set code_field_names"
proof -
  from assms have "\<forall>p\<in>set (pruefungen m). wt_pruefungsleistung p"
    by (simp add: wt_modul_def list_all_iff)
  then have "(\<Union>p\<in>set (pruefungen m). set (all_keys (Pruefungsleistung_to_dict p)))
      \<subseteq> set code_field_names"
    using keys_Pruefungsleistung by blast
  moreover have "set [''modulName'', ''ects'', ''status'', ''note'', ''pruefungen'']
      \<subseteq> set code_field_names"
    by (simp add: code_field_names_def)
  ultimately show ?thesis
    using assms by (simp add: wt_modul_def Modul_to_dict_def scalar_keys)
qed

lemma keys_Semester:
  assumes "wt_semester s"
  shows "set (all_keys (Semester_to_dict s)) \<subseteq> set code_field_names"
proof -
  from assms have "\<forall>m\<in>set (module s). wt_modul m"
    by (simp add: wt_semester_def list_all_iff)
  then have "(\<Union>m\<in>set (module s). set (all_keys (Modul_to_dict m))) \<subseteq> set code_field_names"
    using keys_Modul by blast
  moreover have "set [''semesterNummer'', ''startDatum'', ''endDatum'', ''module'']
      \<subseteq> set code_field_names"
    by (simp add: code_field_names_def)
  ultimately show ?thesis
    using assms by (simp add: wt_semester_def Semester_to_dict_def scalar_keys)
qed

lemma keys_Studiengang:
  assumes "wt_studiengang stg"
  shows "set (all_keys (Studiengang_to_dict stg)) \<subseteq> set code_field_names"
proof -
  from assms have "\<forall>s\<in>set (semester stg). wt_semester s"
    by (simp add: wt_studiengang_def list_all_iff)
  then have "(\<Union>s\<in>set (semester stg). set (all_keys (Semester_to_dict s)))
      \<subseteq> set code_field_names"
    using keys_Semester by blast
  moreover have "set [''name'', ''gesamtECTS'', ''semester''] \<subseteq> set code_field_names"
    by (simp add: code_field_names_def)
  ultimately show ?thesis
    using assms by (simp add: wt_studiengang_def Studiengang_to_dict_def scalar_keys)
qed

lemma main_stg_dict:
  "Studiengang_to_dict main_stg =
   PDict
  [(''name'', PStr ''Angewandte KI''), (''gesamtECTS'', PInt 180),
   (''semester'',
    PList
     [PDict
       [(''semesterNummer'', PInt 1), (''startDatum'', PStr ''2023-10-01''),
        (''endDatum'', PStr ''2024-03-31''),
        (''module'',
         PList
          [PDict
            [(''modulName'', PStr ''Mathe I''), (''ects'', PInt 8),
             (''status'', PStr ''Abgeschlossen''),
             (''note'', PFloat 2.3),
             (''pruefungen'',
              PList
               [PDict
                 [(''note'', PFloat 2.3), (''versuch'', PInt 1)]])],
           PDict
            [(''modulName'', PStr ''Programmierung''), (''ects'', PInt 10),
             (''status'', PStr ''In Bearbeitung''), (''note'', PNone),
             (''pruefungen'', PList [])]])],
      PDict
       [(''semesterNummer'', PInt 2), (''startDatum'', PStr ''2024-04-01''),
        (''endDatum'', PStr ''2024-09-30''),
        (''module'',
         PList
          [PDict
            [(''modulName'', PStr ''Datenbanken''), (''ects'', PInt 6),
             (''status'', PStr ''Abgeschlossen''), (''note'', PFloat 2),
             (''pruefungen'',
              PList
               [PDict
                 [(''note'', PFloat 2), (''versuch'', PInt 1)]])]])]])]"
  by (simp add: example_defs Studiengang_to_dict_def Semester_to_dict_def Modul_to_dict_def
      Pruefungsleistung_to_dict_def)

section \<open>Claims\<close>

subsection \<open>Round trip through the persistence service\<close>



subsection \<open>Earned credit points\<close>



subsection \<open>Grade average\<close>



subsection \<open>Appending an attempt\<close>

text \<open>
  Claim C4. \<^verbatim>\<open>addPruefungsleistung\<close> puts the attempt at the end of the module's list of
  attempts and sets the module's \<^verbatim>\<open>note\<close> to the grade of that attempt, whatever the
  \<^verbatim>\<open>note\<close> was before; the other fields keep their values. Afterwards the \<^verbatim>\<open>note\<close> is the
  grade of the last attempt of the list.
\<close>

theorem C4_addPruefungsleistung:
  "pruefungen (addPruefungsleistung m p) = pruefungen m @ [p] \<and>
   note (addPruefungsleistung m p) = pruefungsleistung.note p \<and>
   getAktuelleNote (addPruefungsleistung m p) = pruefungsleistung.note p \<and>
   note (addPruefungsleistung m p) =
     pruefungsleistung.note (last (pruefungen (addPruefungsleistung m p))) \<and>
   modulName (addPruefungsleistung m p) = modulName m \<and>
   ects (addPruefungsleistung m p) = ects m \<and>
   status (addPruefungsleistung m p) = status m"
  by (simp add: addPruefungsleistung_def getAktuelleNote_def)

subsection \<open>Progress in percent\<close>



subsection \<open>Failures of load and save\<close>



subsection \<open>Field names of the persisted format\<close>

text \<open>
  Claim C7, as stated, fails: the keys that \<^verbatim>\<open>saveData\<close> writes for the Studiengang of
  \<^verbatim>\<open>main\<close> are not the field names of the specification. The file has the key
  \<^verbatim>\<open>gesamtECTS\<close> and no key \<^verbatim>\<open>totalCreditTarget\<close>, and a document written with the names of the
  specification does not load.
\<close>

theorem C7_counterexample:
  "set (all_keys (Studiengang_to_dict main_stg)) \<noteq> set spec_field_names \<and>
   ''gesamtECTS'' \<in> set (all_keys (Studiengang_to_dict main_stg)) \<and>
   ''totalCreditTarget'' \<notin> set (all_keys (Studiengang_to_dict main_stg)) \<and>
   Studiengang_from_dict spec_named_document = Inl (KeyError ''gesamtECTS'')"
proof -
  have a: "''gesamtECTS'' \<in> set (all_keys (Studiengang_to_dict main_stg))"
    unfolding main_stg_dict by simp
  have b: "''totalCreditTarget'' \<notin> set (all_keys (Studiengang_to_dict main_stg))"
    unfolding main_stg_dict by simp
  have c: "''gesamtECTS'' \<notin> set spec_field_names"
    by (simp add: spec_field_names_def)
  have d: "Studiengang_from_dict spec_named_document = Inl (KeyError ''gesamtECTS'')"
    by (simp add: spec_named_document_def Studiengang_from_dict_def)
  from a c have "set (all_keys (Studiengang_to_dict main_stg)) \<noteq> set spec_field_names"
    by metis
  with a b d show ?thesis by simp
qed

text \<open>
  Claim C7, amended. The keys that are written are the identifiers of the code:
  \<^verbatim>\<open>name\<close>, \<^verbatim>\<open>gesamtECTS\<close>, \<^verbatim>\<open>semester\<close> for the Studiengang; \<^verbatim>\<open>semesterNummer\<close>,
  \<^verbatim>\<open>startDatum\<close>, \<^verbatim>\<open>endDatum\<close>, \<^verbatim>\<open>module\<close> for a semester; \<^verbatim>\<open>modulName\<close>, \<^verbatim>\<open>ects\<close>,
  \<^verbatim>\<open>status\<close>, \<^verbatim>\<open>note\<close>, \<^verbatim>\<open>pruefungen\<close> for a module; \<^verbatim>\<open>note\<close>, \<^verbatim>\<open>versuch\<close> for an attempt.
  For a Studiengang with the annotated field types no other key occurs in the document,
  and at every level \<^verbatim>\<open>from_dict\<close> reads back what \<^verbatim>\<open>to_dict\<close> wrote.
\<close>

theorem C7_field_names:
  "dict_keys (Studiengang_to_dict stg) = [''name'', ''gesamtECTS'', ''semester''] \<and>
   dict_keys (Semester_to_dict sem) =
     [''semesterNummer'', ''startDatum'', ''endDatum'', ''module''] \<and>
   dict_keys (Modul_to_dict m) = [''modulName'', ''ects'', ''status'', ''note'', ''pruefungen''] \<and>
   dict_keys (Pruefungsleistung_to_dict p) = [''note'', ''versuch''] \<and>
   (wt_studiengang stg \<longrightarrow>
      set (all_keys (Studiengang_to_dict stg)) \<subseteq> set code_field_names) \<and>
   Studiengang_from_dict (Studiengang_to_dict stg) = Inr stg \<and>
   Semester_from_dict (Semester_to_dict sem) = Inr sem \<and>
   Modul_from_dict (Modul_to_dict m) = Inr m \<and>
   Pruefungsleistung_from_dict (Pruefungsleistung_to_dict p) = Inr p"
proof (intro conjI impI)
  show "dict_keys (Studiengang_to_dict stg) = [''name'', ''gesamtECTS'', ''semester'']"
    by (simp add: dict_keys_def Studiengang_to_dict_def)
  show "dict_keys (Semester_to_dict sem) =
     [''semesterNummer'', ''startDatum'', ''endDatum'', ''module'']"
    by (simp add: dict_keys_def Semester_to_dict_def)
  show "dict_keys (Modul_to_dict m) =
     [''modulName'', ''ects'', ''status'', ''note'', ''pruefungen'']"
    by (simp add: dict_keys_def Modul_to_dict_def)
  show "dict_keys (Pruefungsleistung_to_dict p) = [''note'', ''versuch'']"
    by (simp add: dict_keys_def Pruefungsleistung_to_dict_def)
  show "set (all_keys (Studiengang_to_dict stg)) \<subseteq> set code_field_names"
    if "wt_studiengang stg"
    using that by (rule keys_Studiengang)
  show "Studiengang_from_dict (Studiengang_to_dict stg) = Inr stg"
    by (rule Studiengang_round_trip)
  show "Semester_from_dict (Semester_to_dict sem) = Inr sem"
    by (rule Semester_round_trip)
  show "Modul_from_dict (Modul_to_dict m) = Inr m"
    by (rule Modul_round_trip)
  show "Pruefungsleistung_from_dict (Pruefungsleistung_to_dict p) = Inr p"
    by (rule Pruefungsleistung_round_trip)
qed

theorem C7_field_names_witness:
  "wt_studiengang main_stg \<and>
   set (all_keys (Studiengang_to_dict main_stg)) \<subseteq> set code_field_names \<and>
   dict_keys (Studiengang_to_dict main_stg) = [''name'', ''gesamtECTS'', ''semester'']"
  using C7_field_names [of main_stg] main_stg_wt by blast

subsection \<open>Optional dates\<close>



subsection \<open>Removing a module\<close>

text \<open>
  Claim C9. For a module \<open>m\<close> of the list of a semester, \<^verbatim>\<open>removeModul\<close> deletes the first
  occurrence of \<open>m\<close>: the modules before it and after it stay, in their order. If no
  module occurs twice in the list, the result is the list without \<open>m\<close>. The elements are
  compared with \<^verbatim>\<open>==\<close>, which is object identity for Modul; the statement holds for any
  type of elements.
\<close>

theorem C9_removeModul:
  "(m \<in> set (module sem) \<longrightarrow>
      (\<exists>xs ys. module sem = xs @ m # ys \<and> m \<notin> set xs \<and>
         removeModul sem m = Inr (sem\<lparr>module := xs @ ys\<rparr>))) \<and>
   (m \<in> set (module sem) \<and> distinct (module sem) \<longrightarrow>
      removeModul sem m = Inr (sem\<lparr>module := filter (\<lambda>x. x \<noteq> m) (module sem)\<rparr>))"
proof (intro conjI impI)
  assume present: "m \<in> set (module sem)"
  from remove1_split [OF present] obtain xs ys
    where "module sem = xs @ m # ys" "m \<notin> set xs" "remove1 m (module sem) = xs @ ys"
    by blast
  with present have "module sem = xs @ m # ys \<and> m \<notin> set xs \<and>
      removeModul sem m = Inr (sem\<lparr>module := xs @ ys\<rparr>)"
    by (simp add: removeModul_def)
  then show "\<exists>xs ys. module sem = xs @ m # ys \<and> m \<notin> set xs \<and>
         removeModul sem m = Inr (sem\<lparr>module := xs @ ys\<rparr>)"
    by blast
next
  assume "m \<in> set (module sem) \<and> distinct (module sem)"
  then show "removeModul sem m = Inr (sem\<lparr>module := filter (\<lambda>x. x \<noteq> m) (module sem)\<rparr>)"
    by (simp add: removeModul_def remove1_distinct)
qed

theorem C9_removeModul_witness:
  "11 \<in> set (module three_modules) \<and> distinct (module three_modules) \<and>
   (\<exists>xs ys. module three_modules = xs @ 11 # ys \<and> 11 \<notin> set xs \<and>
      removeModul three_modules 11 = Inr (three_modules\<lparr>module := xs @ ys\<rparr>)) \<and>
   removeModul three_modules 11 = Inr (three_modules\<lparr>module := [10, 12]\<rparr>)"
proof -
  have h: "11 \<in> set (module three_modules)" "distinct (module three_modules)"
    by (simp_all add: three_modules_def Semester_def addModul_def)
  have f: "filter (\<lambda>x. x \<noteq> 11) (module three_modules) = [10, 12]"
    by (simp add: three_modules_def Semester_def addModul_def)
  from C9_removeModul [of 11 three_modules] h
  have a: "\<exists>xs ys. module three_modules = xs @ 11 # ys \<and> 11 \<notin> set xs \<and>
      removeModul three_modules 11 = Inr (three_modules\<lparr>module := xs @ ys\<rparr>)"
    and b: "removeModul three_modules 11 =
      Inr (three_modules\<lparr>module := filter (\<lambda>x. x \<noteq> 11) (module three_modules)\<rparr>)"
    by blast+
  from b f have "removeModul three_modules 11 = Inr (three_modules\<lparr>module := [10, 12]\<rparr>)"
    by simp
  with a h show ?thesis by blast
qed

subsection \<open>Missing child lists\<close>

text \<open>
  Claim C10. A serialised Studiengang without the key \<^verbatim>\<open>semester\<close>, a semester without
  the key \<^verbatim>\<open>module\<close> and a module without the key \<^verbatim>\<open>pruefungen\<close> are reconstructed with an
  empty child list, provided the keys read with \<^verbatim>\<open>data[...]\<close> are there.
\<close>

theorem C10_missing_child_lists:
  "(map_of kvs ''semester'' = None \<and> map_of kvs ''name'' = Some n \<and>
    map_of kvs ''gesamtECTS'' = Some g \<longrightarrow>
      Studiengang_from_dict (PDict kvs) = Inr \<lparr>name = n, gesamtECTS = g, semester = []\<rparr>) \<and>
   (map_of kvs ''module'' = None \<and> map_of kvs ''semesterNummer'' = Some nr \<longrightarrow>
      Semester_from_dict (PDict kvs) =
        Inr \<lparr>semesterNummer = nr, startDatum = value_or (map_of kvs ''startDatum'') PNone,
             endDatum = value_or (map_of kvs ''endDatum'') PNone, module = []\<rparr>) \<and>
   (map_of kvs ''pruefungen'' = None \<and> map_of kvs ''modulName'' = Some mn \<and>
    map_of kvs ''ects'' = Some e \<and> map_of kvs ''status'' = Some s \<longrightarrow>
      Modul_from_dict (PDict kvs) =
        Inr \<lparr>modulName = mn, ects = e, status = s,
             note = value_or (map_of kvs ''note'') PNone, pruefungen = []\<rparr>)"
  by (simp add: Studiengang_from_dict_PDict Semester_from_dict_PDict Modul_from_dict_PDict
      value_or_def)

theorem C10_missing_child_lists_witness:
  "loadData example_world ''nur_kopf.json'' =
     Inr (Some \<lparr>name = PStr ''Angewandte KI'', gesamtECTS = PInt 180, semester = []\<rparr>) \<and>
   Semester_from_dict (PDict [(''semesterNummer'', PInt 1)]) =
     Inr \<lparr>semesterNummer = PInt 1, startDatum = PNone, endDatum = PNone, module = []\<rparr> \<and>
   Modul_from_dict (PDict [(''modulName'', PStr ''Mathe I''), (''ects'', PInt 8),
       (''status'', PStr ''Abgeschlossen'')]) =
     Inr \<lparr>modulName = PStr ''Mathe I'', ects = PInt 8, status = PStr ''Abgeschlossen'',
          note = PNone, pruefungen = []\<rparr>"
proof -
  have f: "files example_world ''nur_kopf.json'' =
      Some (Parsed (PDict [(''name'', PStr ''Angewandte KI''), (''gesamtECTS'', PInt 180)]))"
    by (simp add: example_world_def)
  from C10_missing_child_lists
    [of "[(''name'', PStr ''Angewandte KI''), (''gesamtECTS'', PInt 180)]"
        "PStr ''Angewandte KI''" "PInt 180"]
  have "Studiengang_from_dict (PDict [(''name'', PStr ''Angewandte KI''), (''gesamtECTS'', PInt 180)])
      = Inr \<lparr>name = PStr ''Angewandte KI'', gesamtECTS = PInt 180, semester = []\<rparr>"
    by simp
  with f have a: "loadData example_world ''nur_kopf.json'' =
     Inr (Some \<lparr>name = PStr ''Angewandte KI'', gesamtECTS = PInt 180, semester = []\<rparr>)"
    by (simp add: loadData_def loadData_try_def open_read_def json_load_def)
  from C10_missing_child_lists [of "[(''semesterNummer'', PInt 1)]" _ _ "PInt 1"]
  have b: "Semester_from_dict (PDict [(''semesterNummer'', PInt 1)]) =
     Inr \<lparr>semesterNummer = PInt 1, startDatum = PNone, endDatum = PNone, module = []\<rparr>"
    by (simp add: value_or_def)
  from C10_missing_child_lists [of "[(''modulName'', PStr ''Mathe I''), (''ects'', PInt 8),
       (''status'', PStr ''Abgeschlossen'')]" _ _ _ "PStr ''Mathe I''" "PInt 8"
       "PStr ''Abgeschlossen''"]
  have c: "Modul_from_dict (PDict [(''modulName'', PStr ''Mathe I''), (''ects'', PInt 8),
       (''status'', PStr ''Abgeschlossen'')]) =
     Inr \<lparr>modulName = PStr ''Mathe I'', ects = PInt 8, status = PStr ''Abgeschlossen'',
          note = PNone, pruefungen = []\<rparr>"
    by (simp add: value_or_def)
  from a b c show ?thesis by blast
qed

end
